theory Spec2Isabelle
  imports Main "HOL-Library.Sublist"
begin

section \<open>Tags and Python exceptions\<close>

text \<open>
  A tag is the dict \<^verbatim>\<open>{'Key': k, 'Value': v}\<close> that \<^verbatim>\<open>create_taglist\<close>,
  \<^verbatim>\<open>divide_tags\<close> and \<^verbatim>\<open>select_tags\<close> build and that every helper of
  \<^verbatim>\<open>pyaws/tags/tag_utils.py\<close> indexes with \<^verbatim>\<open>tag['Key']\<close>. Two such dicts are
  equal in Python exactly when their keys and their values are, which is equality of
  records. Strings are ASCII strings.
\<close>

record tag =
  Key :: string
  Value :: string

text \<open>An exception is its class and the text \<^verbatim>\<open>str(e)\<close> gives.\<close>

datatype exc_class = KeyError | ValueError | TypeError | AttributeError | OtherException

datatype py_error = Raise exc_class string

section \<open>\<^verbatim>\<open>valid_tags\<close>\<close>

text \<open>
  \<^verbatim>\<open>
  def valid_tags(tag_list):
      for tag in tag_list:
          if ':' in tag['Key']:
              return False
      return True
  \<close>
  For a string key, \<^verbatim>\<open>':' in key\<close> asks whether the one-character string occurs in
  it, that is whether the character is one of the key's.
\<close>

fun valid_tags :: "tag list \<Rightarrow> bool" where
  "valid_tags [] = True"
| "valid_tags (tag # tag_list) = (if CHR '':'' \<in> set (Key tag) then False else valid_tags tag_list)"

section \<open>\<^verbatim>\<open>exclude_tags\<close>, \<^verbatim>\<open>filter_tags\<close>, \<^verbatim>\<open>include_tags\<close>\<close>

text \<open>
  \<^verbatim>\<open>
  def exclude_tags(tag_list, *args):
      clean = tag_list.copy()
      for tag in tag_list:
          for arg in args:
              if arg == tag['Key']:
                  clean.remove(tag)
      return clean
  \<close>
  \<^verbatim>\<open>args\<close> is the tuple of the positional arguments, so it is a list here: the same key
  can be given twice. \<^verbatim>\<open>clean.remove(tag)\<close> deletes the first element equal to
  \<^verbatim>\<open>tag\<close> and raises ValueError when there is none.
\<close>

definition list_remove :: "tag list \<Rightarrow> tag \<Rightarrow> py_error + tag list" where
  "list_remove xs x =
     (if x \<in> set xs then Inr (remove1 x xs)
      else Inl (Raise ValueError ''list.remove(x): x not in list''))"

text \<open>The inner loop \<^verbatim>\<open>for arg in args\<close> for one tag, threading \<^verbatim>\<open>clean\<close>.\<close>

fun exclude_args :: "tag \<Rightarrow> string list \<Rightarrow> tag list \<Rightarrow> py_error + tag list" where
  "exclude_args tag [] clean = Inr clean"
| "exclude_args tag (arg # args) clean =
     (if arg = Key tag
      then (case list_remove clean tag of
              Inl e \<Rightarrow> Inl e
            | Inr clean' \<Rightarrow> exclude_args tag args clean')
      else exclude_args tag args clean)"

text \<open>The outer loop \<^verbatim>\<open>for tag in tag_list\<close>.\<close>

fun exclude_loop :: "tag list \<Rightarrow> string list \<Rightarrow> tag list \<Rightarrow> py_error + tag list" where
  "exclude_loop [] args clean = Inr clean"
| "exclude_loop (tag # tag_list) args clean =
     (case exclude_args tag args clean of
        Inl e \<Rightarrow> Inl e
      | Inr clean' \<Rightarrow> exclude_loop tag_list args clean')"

definition exclude_tags :: "tag list \<Rightarrow> string list \<Rightarrow> py_error + tag list" where
  "exclude_tags tag_list args = exclude_loop tag_list args tag_list"

text \<open>
  The deprecated \<^verbatim>\<open>filter_tags\<close> has a body of its own in the source (lines 113 to 128),
  so it has loops of its own here.
  \<^verbatim>\<open>
  def filter_tags(tag_list, *args):
      clean = tag_list.copy()
      for tag in tag_list:
          for arg in args:
              if arg == tag['Key']:
                  clean.remove(tag)
      return clean
  \<close>
\<close>

fun filter_args :: "tag \<Rightarrow> string list \<Rightarrow> tag list \<Rightarrow> py_error + tag list" where
  "filter_args tag [] clean = Inr clean"
| "filter_args tag (arg # args) clean =
     (if arg = Key tag
      then (case list_remove clean tag of
              Inl e \<Rightarrow> Inl e
            | Inr clean' \<Rightarrow> filter_args tag args clean')
      else filter_args tag args clean)"

fun filter_loop :: "tag list \<Rightarrow> string list \<Rightarrow> tag list \<Rightarrow> py_error + tag list" where
  "filter_loop [] args clean = Inr clean"
| "filter_loop (tag # tag_list) args clean =
     (case filter_args tag args clean of
        Inl e \<Rightarrow> Inl e
      | Inr clean' \<Rightarrow> filter_loop tag_list args clean')"

definition filter_tags :: "tag list \<Rightarrow> string list \<Rightarrow> py_error + tag list" where
  "filter_tags tag_list args = filter_loop tag_list args tag_list"

text \<open>
  \<^verbatim>\<open>
  def include_tags(tag_list, *args):
      targets = []
      for tag in tag_list:
          for arg in args:
              if arg == tag['Key']:
                  targets.append(tag)
      return targets
  \<close>
\<close>

fun include_args :: "tag \<Rightarrow> string list \<Rightarrow> tag list \<Rightarrow> tag list" where
  "include_args tag [] targets = targets"
| "include_args tag (arg # args) targets =
     (if arg = Key tag then include_args tag args (targets @ [tag])
      else include_args tag args targets)"

fun include_loop :: "tag list \<Rightarrow> string list \<Rightarrow> tag list \<Rightarrow> tag list" where
  "include_loop [] args targets = targets"
| "include_loop (tag # tag_list) args targets =
     include_loop tag_list args (include_args tag args targets)"

definition include_tags :: "tag list \<Rightarrow> string list \<Rightarrow> tag list" where
  "include_tags tag_list args = include_loop tag_list args []"

section \<open>\<^verbatim>\<open>remove_duplicates\<close>\<close>

text \<open>
  \<^verbatim>\<open>
  def remove_duplicates(list):
      clean_list, key_list = [], []
      try:
          for dict in list:
              if dict['Key'] not in key_list:
                  clean_list.append(dict)
                  key_list.append(dict['Key'])
      except KeyError:
          ...
      except Exception as e:
          raise e
      return clean_list
  \<close>
  Every tag has the entry \<^verbatim>\<open>'Key'\<close>, so on a list of tags \<^verbatim>\<open>dict['Key']\<close> raises no
  KeyError and the handler (which dedups a list of dicts that are not tags) is not
  entered; nothing else in the loop can raise.
\<close>

fun dedup_loop :: "tag list \<Rightarrow> tag list \<Rightarrow> string list \<Rightarrow> tag list" where
  "dedup_loop [] clean_list key_list = clean_list"
| "dedup_loop (dict # rest) clean_list key_list =
     (if Key dict \<notin> set key_list
      then dedup_loop rest (clean_list @ [dict]) (key_list @ [Key dict])
      else dedup_loop rest clean_list key_list)"

definition remove_duplicates :: "tag list \<Rightarrow> tag list" where
  "remove_duplicates list = dedup_loop list [] []"

section \<open>\<^verbatim>\<open>divide_tags\<close>\<close>

text \<open>
  A Python dict from strings to strings, as the list of its items in insertion order:
  storing under a key already present keeps the key's place and replaces its value.
\<close>

type_synonym pydict = "(string \<times> string) list"

fun dict_set :: "pydict \<Rightarrow> string \<Rightarrow> string \<Rightarrow> pydict" where
  "dict_set [] k v = [(k, v)]"
| "dict_set ((k', v') # d) k v = (if k' = k then (k, v) # d else (k', v') # dict_set d k v)"

text \<open>\<^verbatim>\<open>d.pop(key)\<close> with no default: KeyError when the key is absent.\<close>

definition dict_pop :: "pydict \<Rightarrow> string \<Rightarrow> py_error + pydict" where
  "dict_pop d key =
     (if key \<in> fst ` set d then Inr (filter (\<lambda>(k, v). k \<noteq> key) d)
      else Inl (Raise KeyError key))"

text \<open>The comprehension \<^verbatim>\<open>{x['Key']: x['Value'] for x in tag_list}\<close>.\<close>

definition tags_dict :: "tag list \<Rightarrow> pydict" where
  "tags_dict tag_list = foldl (\<lambda>d x. dict_set d (Key x) (Value x)) [] tag_list"

text \<open>
  \<^verbatim>\<open>
  def divide_tags(tag_list, *args):
      matching = []
      residual = {x['Key']: x['Value'] for x in tag_list.copy()}
      tag_dict = {x['Key']: x['Value'] for x in tag_list}
      for key in args:
          for k,v in tag_dict.items():
              try:
                  if key == k:
                      matching.append({'Key': k, 'Value': v})
                  else:
                      residual.pop(key)
              except KeyError:
                  continue
      return matching, [{'Key': k, 'Value': v} for k,v in residual.items()]
  \<close>
  The inner loop runs over the items of \<^verbatim>\<open>tag_dict\<close>, which the loop never changes;
  the KeyError of \<^verbatim>\<open>residual.pop(key)\<close> is caught and the loop goes on.
\<close>

fun divide_items :: "string \<Rightarrow> pydict \<Rightarrow> tag list \<Rightarrow> pydict \<Rightarrow> tag list \<times> pydict" where
  "divide_items key [] matching residual = (matching, residual)"
| "divide_items key ((k, v) # items) matching residual =
     (if key = k then divide_items key items (matching @ [\<lparr>Key = k, Value = v\<rparr>]) residual
      else (case dict_pop residual key of
              Inl e \<Rightarrow> divide_items key items matching residual
            | Inr residual' \<Rightarrow> divide_items key items matching residual'))"

fun divide_keys :: "string list \<Rightarrow> pydict \<Rightarrow> tag list \<Rightarrow> pydict \<Rightarrow> tag list \<times> pydict" where
  "divide_keys [] tag_dict matching residual = (matching, residual)"
| "divide_keys (key # args) tag_dict matching residual =
     (case divide_items key tag_dict matching residual of
        (matching', residual') \<Rightarrow> divide_keys args tag_dict matching' residual')"

definition divide_tags :: "tag list \<Rightarrow> string list \<Rightarrow> tag list \<times> tag list" where
  "divide_tags tag_list args =
     (case divide_keys args (tags_dict tag_list) [] (tags_dict tag_list) of
        (matching, residual) \<Rightarrow> (matching, map (\<lambda>(k, v). \<lparr>Key = k, Value = v\<rparr>) residual))"

section \<open>Properties\<close>

subsection \<open>\<^verbatim>\<open>valid_tags\<close>\<close>

text \<open>
  Claim C3. For every tag list, \<^verbatim>\<open>valid_tags\<close> returns False if and only if some tag
  of the list has a key containing the character \<^verbatim>\<open>:\<close>; so a key with a colon is
  rejected, and a list with no such key is accepted (the result is True).
\<close>

theorem valid_tags_False_iff:
  "(valid_tags tag_list = False \<longleftrightarrow> (\<exists>tag \<in> set tag_list. CHR '':'' \<in> set (Key tag)))
   \<and> (tag \<in> set tag_list \<and> CHR '':'' \<in> set (Key tag) \<longrightarrow> valid_tags tag_list = False)
   \<and> ((\<forall>t \<in> set tag_list. CHR '':'' \<notin> set (Key t)) \<longrightarrow> valid_tags tag_list = True)"
  by (induction tag_list) auto

theorem valid_tags_False_iff_witness:
  "valid_tags [\<lparr>Key = ''Name'', Value = ''web''\<rparr>, \<lparr>Key = ''aws:stack'', Value = ''x''\<rparr>] = False
   \<and> valid_tags [\<lparr>Key = ''Name'', Value = ''web''\<rparr>, \<lparr>Key = ''env'', Value = ''prod''\<rparr>] = True"
  using valid_tags_False_iff [of "[\<lparr>Key = ''Name'', Value = ''web''\<rparr>, \<lparr>Key = ''aws:stack'', Value = ''x''\<rparr>]"
      "\<lparr>Key = ''aws:stack'', Value = ''x''\<rparr>"]
    valid_tags_False_iff [of "[\<lparr>Key = ''Name'', Value = ''web''\<rparr>, \<lparr>Key = ''env'', Value = ''prod''\<rparr>]"]
  by simp

end
